theory Spec2Isabelle
  imports Main
begin

section \<open>A fragment of Python: values, expressions, module-level statements\<close>

text \<open>
  The two source files are plain module bodies: imports, class statements whose bodies
  are annotated assignments, and three top-level calls. They are modelled as abstract
  syntax and run by a small interpreter.

  Objects that come from other modules (\<open>fastapi\<close>, \<open>pydantic\<close>, \<open>typing\<close>, \<open>auth\<close>,
  \<open>database\<close>) are opaque: the interpreter records where they come from and which
  attribute, subscript or call produced them, and nothing more.
\<close>

datatype pyval =
    PNone
  | PStr string                  \<comment> \<open>a \<open>str\<close>, as its UTF-8 encoding\<close>
  | PBytes string                \<comment> \<open>a \<open>bytes\<close> object\<close>
  | PInt int                     \<comment> \<open>an \<open>int\<close> (not a \<open>bool\<close>)\<close>
  | PBuiltin string              \<comment> \<open>a builtin class, such as \<open>str\<close>\<close>
  | PClass string                \<comment> \<open>a class created by a class statement of the module\<close>
  | PImported string string      \<comment> \<open>\<open>from m import n\<close>: module, name\<close>
  | PAttr pyval string           \<comment> \<open>\<open>o.a\<close> on an opaque object\<close>
  | PSubscript pyval pyval       \<comment> \<open>\<open>o[i]\<close> on an opaque object\<close>
  | PResult pyval                \<comment> \<open>the value returned by calling an opaque object\<close>

text \<open>
  Truth value testing: \<open>None\<close> is false, a string or bytes object is false when empty, an
  integer is false when zero, a class object is
  true (neither \<open>type\<close> nor the metaclass of a class statement here defines
  \<open>__bool__\<close> or \<open>__len__\<close>). The truth value of an opaque object is not known.
\<close>

fun truthy :: "pyval \<Rightarrow> bool option" where
  "truthy PNone = Some False"
| "truthy (PStr s) = Some (s \<noteq> [])"
| "truthy (PBytes b) = Some (b \<noteq> [])"
| "truthy (PInt n) = Some (n \<noteq> 0)"
| "truthy (PBuiltin c) = Some True"
| "truthy (PClass c) = Some True"
| "truthy (PImported m n) = None"
| "truthy (PAttr v a) = None"
| "truthy (PSubscript v i) = None"
| "truthy (PResult v) = None"

fun opaque :: "pyval \<Rightarrow> bool" where
  "opaque (PImported m n) = True"
| "opaque (PAttr v a) = True"
| "opaque (PSubscript v i) = True"
| "opaque (PResult v) = True"
| "opaque PNone = False"
| "opaque (PStr s) = False"
| "opaque (PBytes b) = False"
| "opaque (PInt n) = False"
| "opaque (PBuiltin c) = False"
| "opaque (PClass c) = False"

datatype expr =
    Name string
  | NoneLit
  | Attribute expr string
  | Subscript expr expr
  | BoolOr expr expr

type_synonym namespace = "(string \<times> pyval) list"

text \<open>
  Evaluation returns \<open>None\<close> where Python raises (an unbound name) or where the model
  does not know the result. \<open>a or b\<close> evaluates \<open>a\<close>, returns it when it is true, and
  evaluates and returns \<open>b\<close> otherwise.
\<close>

fun eval :: "namespace \<Rightarrow> expr \<Rightarrow> pyval option" where
  "eval ns (Name x) = map_of ns x"
| "eval ns NoneLit = Some PNone"
| "eval ns (Attribute e a) =
     (case eval ns e of
        None \<Rightarrow> None
      | Some v \<Rightarrow> if opaque v then Some (PAttr v a) else None)"
| "eval ns (Subscript e i) =
     (case eval ns e of
        None \<Rightarrow> None
      | Some v \<Rightarrow>
          (case eval ns i of
             None \<Rightarrow> None
           | Some w \<Rightarrow> if opaque v then Some (PSubscript v w) else None))"
| "eval ns (BoolOr a b) =
     (case eval ns a of
        None \<Rightarrow> None
      | Some v \<Rightarrow>
          (case truthy v of
             None \<Rightarrow> None
           | Some t \<Rightarrow> if t then Some v else eval ns b))"

record field =
  f_name :: string
  f_annotation :: pyval
  f_default :: "pyval option"

record model_class =
  cls_name :: string
  cls_bases :: "pyval list"
  cls_fields :: "field list"

datatype stmt =
    ImportFrom string "string list"
  | ClassDef string "expr list" "(string \<times> expr \<times> expr option) list"
  | ExprCall expr "(string option \<times> expr) list"
  | AssignCall string expr "(string option \<times> expr) list"

datatype event =
    EvImport string "string list"
  | EvClass string
  | EvCall pyval "(string option \<times> pyval) list"

record module_state =
  globals :: namespace
  classes :: "model_class list"
  events :: "event list"

fun eval_list :: "namespace \<Rightarrow> expr list \<Rightarrow> pyval list option" where
  "eval_list ns [] = Some []"
| "eval_list ns (e # es) =
     (case eval ns e of
        None \<Rightarrow> None
      | Some v \<Rightarrow> map_option ((#) v) (eval_list ns es))"

fun eval_args ::
  "namespace \<Rightarrow> (string option \<times> expr) list \<Rightarrow> (string option \<times> pyval) list option" where
  "eval_args ns [] = Some []"
| "eval_args ns ((k, e) # as) =
     (case eval ns e of
        None \<Rightarrow> None
      | Some v \<Rightarrow> map_option ((#) (k, v)) (eval_args ns as))"

text \<open>
  A class body is run top to bottom in its own namespace, which shadows the module's.
  An annotated assignment \<open>x: ann = e\<close> evaluates \<open>e\<close> and \<open>ann\<close> and binds \<open>x\<close>;
  \<open>x: ann\<close> evaluates \<open>ann\<close> and binds nothing.
\<close>

fun eval_body :: "namespace \<Rightarrow> (string \<times> expr \<times> expr option) list \<Rightarrow> field list option" where
  "eval_body ns [] = Some []"
| "eval_body ns ((x, ann, None) # rest) =
     (case eval ns ann of
        None \<Rightarrow> None
      | Some a \<Rightarrow>
          map_option ((#) \<lparr>f_name = x, f_annotation = a, f_default = None\<rparr>)
            (eval_body ns rest))"
| "eval_body ns ((x, ann, Some e) # rest) =
     (case eval ns e of
        None \<Rightarrow> None
      | Some d \<Rightarrow>
          (case eval ns ann of
             None \<Rightarrow> None
           | Some a \<Rightarrow>
               map_option ((#) \<lparr>f_name = x, f_annotation = a, f_default = Some d\<rparr>)
                 (eval_body ((x, d) # ns) rest)))"

fun bind_imports :: "string \<Rightarrow> string list \<Rightarrow> namespace \<Rightarrow> namespace" where
  "bind_imports m [] ns = ns"
| "bind_imports m (n # rest) ns = bind_imports m rest ((n, PImported m n) # ns)"

fun exec_stmt :: "module_state \<Rightarrow> stmt \<Rightarrow> module_state option" where
  "exec_stmt st (ImportFrom m names) =
     Some (st\<lparr>globals := bind_imports m names (globals st),
              events := events st @ [EvImport m names]\<rparr>)"
| "exec_stmt st (ClassDef c bases body) =
     (case eval_list (globals st) bases of
        None \<Rightarrow> None
      | Some bs \<Rightarrow>
          (case eval_body (globals st) body of
             None \<Rightarrow> None
           | Some fs \<Rightarrow>
               Some (st\<lparr>globals := (c, PClass c) # globals st,
                        classes := classes st @
                          [\<lparr>cls_name = c, cls_bases = bs, cls_fields = fs\<rparr>],
                        events := events st @ [EvClass c]\<rparr>)))"
| "exec_stmt st (ExprCall f args) =
     (case eval (globals st) f of
        None \<Rightarrow> None
      | Some fv \<Rightarrow>
          (case eval_args (globals st) args of
             None \<Rightarrow> None
           | Some avs \<Rightarrow> Some (st\<lparr>events := events st @ [EvCall fv avs]\<rparr>)))"
| "exec_stmt st (AssignCall x f args) =
     (case eval (globals st) f of
        None \<Rightarrow> None
      | Some fv \<Rightarrow>
          (case eval_args (globals st) args of
             None \<Rightarrow> None
           | Some avs \<Rightarrow>
               Some (st\<lparr>globals := (x, PResult fv) # globals st,
                        events := events st @ [EvCall fv avs]\<rparr>)))"

fun exec_stmts :: "module_state \<Rightarrow> stmt list \<Rightarrow> module_state option" where
  "exec_stmts st [] = Some st"
| "exec_stmts st (s # ss) =
     (case exec_stmt st s of
        None \<Rightarrow> None
      | Some st' \<Rightarrow> exec_stmts st' ss)"

definition builtins :: namespace where
  "builtins = [(''str'', PBuiltin ''str'')]"

definition exec_module :: "stmt list \<Rightarrow> module_state option" where
  "exec_module body = exec_stmts \<lparr>globals = builtins, classes = [], events = []\<rparr> body"

section \<open>The schemas module, \<open>app/schemas/user.py\<close>\<close>

definition str_or_None :: expr where
  "str_or_None = BoolOr (Name ''str'') NoneLit"

definition user_py :: "stmt list" where
  "user_py =
     [ImportFrom ''pydantic'' [''BaseModel''],
      ImportFrom ''typing'' [''Optional''],
      ClassDef ''User'' [Name ''BaseModel'']
        [(''username'', Name ''str'', None),
         (''email'', Name ''str'', None)],
      ClassDef ''Token'' [Name ''BaseModel'']
        [(''access_token'', Name ''str'', None),
         (''token_type'', Name ''str'', None)],
      ClassDef ''TokenData'' [Name ''BaseModel'']
        [(''username'', str_or_None, Some NoneLit)]]"

definition BaseModel :: pyval where
  "BaseModel = PImported ''pydantic'' ''BaseModel''"

text \<open>The schemas of a module are its classes that derive from pydantic's \<open>BaseModel\<close>.\<close>

definition schemas :: "stmt list \<Rightarrow> model_class list" where
  "schemas body =
     (case exec_module body of
        None \<Rightarrow> []
      | Some st \<Rightarrow> filter (\<lambda>c. BaseModel \<in> set (cls_bases c)) (classes st))"

fun find_class :: "string \<Rightarrow> model_class list \<Rightarrow> model_class option" where
  "find_class c [] = None"
| "find_class c (k # ks) = (if cls_name k = c then Some k else find_class c ks)"

text \<open>What the annotation was very likely meant to be: \<open>Optional[str]\<close>.\<close>

definition Optional_str :: expr where
  "Optional_str = Subscript (Name ''Optional'') (Name ''str'')"

definition str_field :: "string \<Rightarrow> field" where
  "str_field x = \<lparr>f_name = x, f_annotation = PBuiltin ''str'', f_default = None\<rparr>"

definition User :: model_class where
  "User = \<lparr>cls_name = ''User'', cls_bases = [BaseModel],
           cls_fields = [str_field ''username'', str_field ''email'']\<rparr>"

definition Token :: model_class where
  "Token = \<lparr>cls_name = ''Token'', cls_bases = [BaseModel],
            cls_fields = [str_field ''access_token'', str_field ''token_type'']\<rparr>"

definition TokenData :: model_class where
  "TokenData = \<lparr>cls_name = ''TokenData'', cls_bases = [BaseModel],
                cls_fields = [\<lparr>f_name = ''username'', f_annotation = PBuiltin ''str'',
                               f_default = Some PNone\<rparr>]\<rparr>"

text \<open>The schema that the module, once run, binds to a class name.\<close>

definition schema :: "string \<Rightarrow> model_class option" where
  "schema c = find_class c (schemas user_py)"

section \<open>Constructing a pydantic model instance\<close>

text \<open>
  \<open>BaseModel\<close> turns the annotated assignments of a class body into fields and gives the
  class a constructor taking keyword arguments. The constructor
  \<^item> ignores keyword arguments that name no field;
  \<^item> for a field that is not supplied, takes the default as it is, unchecked, and
    reports the field as missing when there is no default;
  \<^item> checks a supplied value against the field's annotation, keeping a value of the
    annotated type as it is and converting some others to it;
  \<^item> raises one \<open>ValidationError\<close> listing every failing field.

  Supplied values are strings, \<open>None\<close>, bytes, integers and class or library objects.
  For a \<open>str\<close> field both major versions of pydantic decode bytes as UTF-8 and store the
  decoded string; 1.x also stores \<open>str(n)\<close> for an integer \<open>n\<close>, which 2.x rejects.
  Other kinds that 1.x converts (\<open>float\<close>, \<open>Decimal\<close>, \<open>bool\<close>, \<open>bytearray\<close>) are not
  modelled. The versions also differ on a supplied \<open>None\<close> for a field whose default is
  \<open>None\<close>: 1.x makes such a field nullable whatever its annotation, 2.x does not.
\<close>

datatype pydantic_version = V1 | V2

datatype error_kind = Missing | NoneNotAllowed | TypeMismatch | DecodeError

datatype validation_error = ValidationError "(string \<times> error_kind) list"

type_synonym model_instance = "(string \<times> pyval) list"

definition typing_Optional :: pyval where
  "typing_Optional = PImported ''typing'' ''Optional''"

text \<open>\<open>conforms ann v\<close>: the value \<open>v\<close> is accepted for the annotation \<open>ann\<close>.\<close>

fun conforms :: "pyval \<Rightarrow> pyval \<Rightarrow> bool" where
  "conforms (PBuiltin c) v = (c = ''str'' \<and> (case v of PStr s \<Rightarrow> True | _ \<Rightarrow> False))"
| "conforms (PSubscript f t) v = (f = typing_Optional \<and> (v = PNone \<or> conforms t v))"
| "conforms PNone v = False"
| "conforms (PStr s) v = False"
| "conforms (PBytes b) v = False"
| "conforms (PInt n) v = False"
| "conforms (PClass c) v = False"
| "conforms (PImported m n) v = False"
| "conforms (PAttr o' a) v = False"
| "conforms (PResult f) v = False"

text \<open>
  Strict UTF-8, as \<open>bytes.decode()\<close> checks it. \<open>utf8 k lo hi bs\<close>: the bytes \<open>bs\<close> are
  well-formed when \<open>k\<close> continuation bytes are still due, the next of them in the range
  from \<open>lo\<close> to \<open>hi\<close> (which excludes overlong forms, surrogates and code points above
  \<open>U+10FFFF\<close>).
\<close>

fun utf8 :: "nat \<Rightarrow> nat \<Rightarrow> nat \<Rightarrow> string \<Rightarrow> bool" where
  "utf8 k lo hi [] = (k = 0)"
| "utf8 k lo hi (c # cs) =
     (let b = (of_char c :: nat) in
      if k = 0 then
        (if b < 0x80 then utf8 0 0x80 0xBF cs
         else if 0xC2 \<le> b \<and> b \<le> 0xDF then utf8 1 0x80 0xBF cs
         else if b = 0xE0 then utf8 2 0xA0 0xBF cs
         else if b = 0xED then utf8 2 0x80 0x9F cs
         else if 0xE1 \<le> b \<and> b \<le> 0xEF then utf8 2 0x80 0xBF cs
         else if b = 0xF0 then utf8 3 0x90 0xBF cs
         else if b = 0xF4 then utf8 3 0x80 0x8F cs
         else if 0xF1 \<le> b \<and> b \<le> 0xF3 then utf8 3 0x80 0xBF cs
         else False)
      else lo \<le> b \<and> b \<le> hi \<and> utf8 (k - 1) 0x80 0xBF cs)"

text \<open>\<open>b.decode()\<close>: the string that the bytes encode; \<open>None\<close> where Python raises \<open>UnicodeDecodeError\<close>.\<close>

definition decode :: "string \<Rightarrow> string option" where
  "decode b = (if utf8 0 0x80 0xBF b then Some b else None)"

text \<open>\<open>str(n)\<close> for an integer: its decimal digits, after a minus sign when negative.\<close>

fun digits :: "nat \<Rightarrow> string" where
  "digits n = (if n < 10 then [''0123456789'' ! n] else digits (n div 10) @ [''0123456789'' ! (n mod 10)])"

declare digits.simps [simp del]

definition str_of_int :: "int \<Rightarrow> string" where
  "str_of_int n = (if n < 0 then CHR ''-'' # digits (nat (- n)) else digits (nat n))"

text \<open>
  The conversion of a supplied value that is not of the annotated type: \<open>Inr\<close> the value
  stored, \<open>Inl\<close> the error. Only \<open>str\<close>, possibly under \<open>Optional\<close>, converts anything.
\<close>

fun coerce :: "pydantic_version \<Rightarrow> pyval \<Rightarrow> pyval \<Rightarrow> error_kind + pyval" where
  "coerce ver (PBuiltin c) (PBytes b) =
     (if c = ''str'' then
        (case decode b of None \<Rightarrow> Inl DecodeError | Some s \<Rightarrow> Inr (PStr s))
      else Inl TypeMismatch)"
| "coerce ver (PBuiltin c) (PInt n) =
     (if c = ''str'' \<and> ver = V1 then Inr (PStr (str_of_int n)) else Inl TypeMismatch)"
| "coerce ver (PSubscript f t) v =
     (if f = typing_Optional then coerce ver t v else Inl TypeMismatch)"
| "coerce ver ann v = Inl TypeMismatch"

text \<open>
  A supplied \<open>None\<close> that the annotation does not admit: 1.x accepts it when the field's
  default is \<open>None\<close> and reports \<open>none is not an allowed value\<close> otherwise; 2.x reports a
  type error.
\<close>

fun validate_field :: "pydantic_version \<Rightarrow> field \<Rightarrow> pyval option \<Rightarrow> error_kind + pyval" where
  "validate_field ver f None =
     (case f_default f of
        None \<Rightarrow> Inl Missing
      | Some d \<Rightarrow> Inr d)"
| "validate_field ver f (Some v) =
     (if conforms (f_annotation f) v then Inr v
      else if v = PNone then
        (if ver = V1 then
           (if f_default f = Some PNone then Inr PNone else Inl NoneNotAllowed)
         else Inl TypeMismatch)
      else coerce ver (f_annotation f) v)"

fun errors_of :: "(string \<times> (error_kind + pyval)) list \<Rightarrow> (string \<times> error_kind) list" where
  "errors_of [] = []"
| "errors_of ((x, Inl e) # rs) = (x, e) # errors_of rs"
| "errors_of ((x, Inr v) # rs) = errors_of rs"

fun values_of :: "(string \<times> (error_kind + pyval)) list \<Rightarrow> model_instance" where
  "values_of [] = []"
| "values_of ((x, Inl e) # rs) = values_of rs"
| "values_of ((x, Inr v) # rs) = (x, v) # values_of rs"

definition validate_fields ::
  "pydantic_version \<Rightarrow> field list \<Rightarrow> (string \<rightharpoonup> pyval) \<Rightarrow> (string \<times> (error_kind + pyval)) list" where
  "validate_fields ver fs kwargs = map (\<lambda>f. (f_name f, validate_field ver f (kwargs (f_name f)))) fs"

definition construct ::
  "pydantic_version \<Rightarrow> model_class \<Rightarrow> (string \<rightharpoonup> pyval) \<Rightarrow> validation_error + model_instance" where
  "construct ver cls kwargs =
     (let rs = validate_fields ver (cls_fields cls) kwargs
      in if errors_of rs = [] then Inr (values_of rs) else Inl (ValidationError (errors_of rs)))"


section \<open>The application module, \<open>app/main.py\<close>\<close>

definition main_py :: "stmt list" where
  "main_py =
     [ImportFrom ''fastapi'' [''FastAPI''],
      ImportFrom ''auth'' [''user''],
      ImportFrom ''database'' [''engine'', ''Base''],
      ExprCall (Attribute (Attribute (Name ''Base'') ''metadata'') ''create_all'')
        [(Some ''bind'', Name ''engine'')],
      AssignCall ''app'' (Name ''FastAPI'') [],
      ExprCall (Attribute (Name ''app'') ''include_router'')
        [(None, Attribute (Name ''user'') ''router'')]]"

text \<open>What running a module body does, in order; \<open>None\<close> when the body raises.\<close>

definition startup_events :: "stmt list \<Rightarrow> event list option" where
  "startup_events body = map_option events (exec_module body)"

text \<open>The module an opaque object was imported from.\<close>

fun origin :: "pyval \<Rightarrow> string option" where
  "origin (PImported m n) = Some m"
| "origin (PAttr v a) = origin v"
| "origin (PSubscript v i) = origin v"
| "origin (PResult v) = origin v"
| "origin PNone = None"
| "origin (PStr s) = None"
| "origin (PBytes b) = None"
| "origin (PInt n) = None"
| "origin (PBuiltin c) = None"
| "origin (PClass c) = None"

fun is_call :: "event \<Rightarrow> bool" where
  "is_call (EvCall f args) = True"
| "is_call (EvImport m names) = False"
| "is_call (EvClass c) = False"

text \<open>
  Database work: a call on an object of the \<open>database\<close> module, or a call that is handed
  one. \<open>Base.metadata.create_all(bind=engine)\<close> is SQLAlchemy's table bootstrap: it
  emits \<open>CREATE TABLE\<close> for every mapped table through the engine.
\<close>

fun is_database_work :: "event \<Rightarrow> bool" where
  "is_database_work (EvCall f args) =
     (origin f = Some ''database'' \<or> list_ex (\<lambda>(k, v). origin v = Some ''database'') args)"
| "is_database_work (EvImport m names) = False"
| "is_database_work (EvClass c) = False"

text \<open>Router registration: \<open>include_router\<close> called on an instance of \<open>FastAPI\<close>.\<close>

fun is_router_registration :: "event \<Rightarrow> bool" where
  "is_router_registration (EvCall f args) =
     (f = PAttr (PResult (PImported ''fastapi'' ''FastAPI'')) ''include_router'')"
| "is_router_registration (EvImport m names) = False"
| "is_router_registration (EvClass c) = False"

definition create_all_call :: event where
  "create_all_call =
     EvCall (PAttr (PAttr (PImported ''database'' ''Base'') ''metadata'') ''create_all'')
       [(Some ''bind'', PImported ''database'' ''engine'')]"

definition FastAPI_call :: event where
  "FastAPI_call = EvCall (PImported ''fastapi'' ''FastAPI'') []"

definition include_router_call :: event where
  "include_router_call =
     EvCall (PAttr (PResult (PImported ''fastapi'' ''FastAPI'')) ''include_router'')
       [(None, PAttr (PImported ''auth'' ''user'') ''router'')]"

section \<open>The credential service behind \<open>user.router\<close>\<close>

text \<open>
  \<open>main.py\<close> registers \<open>user.router\<close> of the \<open>auth\<close> package. The package (login, token
  issue, token validation) is not among the source files, so this section follows the
  specification's component contracts. Cryptography is symbolic: a hash or a signature
  is a constructor applied to what was hashed or signed, so it reveals nothing by
  computation and two of them are equal only when built from equal parts.
\<close>

type_synonym timestamp = nat

type_synonym signing_key = string

text \<open>
  Modelled from the spec: the Password Hasher's \<open>hash_string\<close> (the hasher of the \<open>auth\<close>
  package is missing). A hash records the salt drawn for it and the plaintext.
\<close>

datatype hash_string = Hashed nat string

text \<open>
  Modelled from the spec: \<open>hash(plaintext) -> hash_string\<close>, which salts internally; the
  salt drawn is an argument here, so the same plaintext has many hashes.
\<close>

definition hash :: "nat \<Rightarrow> string \<Rightarrow> hash_string" where
  "hash salt plaintext = Hashed salt plaintext"

text \<open>Modelled from the spec: \<open>verify(plaintext, hash_string) -> bool\<close> of the Password Hasher.\<close>

fun verify :: "string \<Rightarrow> hash_string \<Rightarrow> bool" where
  "verify plaintext (Hashed salt p) = (plaintext = p)"

text \<open>
  Modelled from the spec: \<open>UserRecord\<close>, \<open>{username, email, password_hash}\<close>, owned by the
  Credential Store.
\<close>

record UserRecord =
  ur_username :: string
  ur_email :: string
  ur_password_hash :: hash_string

text \<open>
  Modelled from the spec: the Credential Store, which holds the user records or is
  unavailable (a transient storage failure).
\<close>

datatype credential_store = Available "UserRecord list" | Unavailable

text \<open>
  Modelled from the spec: the error taxonomy of section 7: \<open>NotFound\<close>,
  \<open>BadCredentials\<close>, \<open>TokenInvalid\<close>, \<open>TokenExpired\<close>, \<open>StorageUnavailable\<close>.
\<close>

datatype auth_error = NotFound | BadCredentials | TokenInvalid | TokenExpired | StorageUnavailable

text \<open>
  Modelled from the spec: \<open>find_by_username(username) -> UserRecord | NotFound\<close>, where a
  storage failure is signalled distinctly from \<open>NotFound\<close>.
\<close>

fun find_by_username :: "credential_store \<Rightarrow> string \<Rightarrow> auth_error + UserRecord" where
  "find_by_username Unavailable u = Inl StorageUnavailable"
| "find_by_username (Available rs) u =
     (case find (\<lambda>r. ur_username r = u) rs of
        None \<Rightarrow> Inl NotFound
      | Some r \<Rightarrow> Inr r)"

text \<open>Modelled from the spec: \<open>TokenClaims\<close>, the decoded form \<open>{username, expires_at}\<close>.\<close>

record TokenClaims =
  tc_username :: string
  tc_expires_at :: timestamp

text \<open>
  Modelled from the spec: the opaque, signed \<open>access_token\<close> string. A token is either
  claims signed with some key, or a string that is malformed or unsigned.
\<close>

datatype token_string = Signed signing_key TokenClaims | Unsigned string

text \<open>Modelled from the spec: \<open>Token\<close>, \<open>{access_token, token_type}\<close>, as the Token Issuer returns it.\<close>

record BearerToken =
  access_token :: token_string
  token_type :: string

text \<open>
  Modelled from the spec: \<open>issue(username, issued_at) -> Token\<close>, which encodes
  \<open>{username, expires_at = issued_at + fixed TTL}\<close> signed with the server-held key; the
  token type is the constant \<open>bearer\<close>.
\<close>

definition issue :: "signing_key \<Rightarrow> nat \<Rightarrow> string \<Rightarrow> timestamp \<Rightarrow> BearerToken" where
  "issue key ttl username issued_at =
     \<lparr>access_token = Signed key \<lparr>tc_username = username, tc_expires_at = issued_at + ttl\<rparr>,
      token_type = ''bearer''\<rparr>"

text \<open>Modelled from the spec: the three outcomes of the Token Validator.\<close>

datatype validation = Claims TokenClaims | Invalid | Expired

text \<open>
  Modelled from the spec: \<open>validate(token_string) -> TokenClaims | Invalid | Expired\<close>, at
  the current time \<open>now\<close>: malformed, unsigned or signed with another key is \<open>Invalid\<close>;
  correctly signed is \<open>Expired\<close> once the current time exceeds the expiry, and never
  before.
\<close>

fun validate :: "signing_key \<Rightarrow> timestamp \<Rightarrow> token_string \<Rightarrow> validation" where
  "validate key now (Unsigned s) = Invalid"
| "validate key now (Signed k c) =
     (if k \<noteq> key then Invalid
      else if tc_expires_at c < now then Expired
      else Claims c)"

text \<open>
  Modelled from the spec: the Auth Service's login attempt (4.5): credential lookup,
  then the password check, then token issue; any failure ends the attempt.
\<close>

definition authenticate ::
  "credential_store \<Rightarrow> signing_key \<Rightarrow> nat \<Rightarrow> timestamp \<Rightarrow> string \<Rightarrow> string
    \<Rightarrow> auth_error + BearerToken" where
  "authenticate store key ttl now username password =
     (case find_by_username store username of
        Inl e \<Rightarrow> Inl e
      | Inr r \<Rightarrow>
          if verify password (ur_password_hash r) then Inr (issue key ttl username now)
          else Inl BadCredentials)"

text \<open>
  Modelled from the spec: what the caller of \<open>POST /login\<close> gets: the token (200),
  \<open>Unauthorized\<close> (401) or a server-side failure (5xx).
\<close>

datatype outcome = TokenIssued BearerToken | Unauthorized | ServerFailure

text \<open>
  Modelled from the spec: the collapse of errors at the boundary (section 7):
  \<open>NotFound\<close> and \<open>BadCredentials\<close> become \<open>Unauthorized\<close>, as do \<open>TokenInvalid\<close> and
  \<open>TokenExpired\<close>; \<open>StorageUnavailable\<close> is a server-side failure.
\<close>

fun at_boundary :: "auth_error \<Rightarrow> outcome" where
  "at_boundary NotFound = Unauthorized"
| "at_boundary BadCredentials = Unauthorized"
| "at_boundary TokenInvalid = Unauthorized"
| "at_boundary TokenExpired = Unauthorized"
| "at_boundary StorageUnavailable = ServerFailure"

text \<open>Modelled from the spec: \<open>login(username, password)\<close> as seen from outside.\<close>

definition login ::
  "credential_store \<Rightarrow> signing_key \<Rightarrow> nat \<Rightarrow> timestamp \<Rightarrow> string \<Rightarrow> string \<Rightarrow> outcome" where
  "login store key ttl now username password =
     (case authenticate store key ttl now username password of
        Inl e \<Rightarrow> at_boundary e
      | Inr t \<Rightarrow> TokenIssued t)"

text \<open>
  Modelled from the spec: \<open>login\<close> at time \<open>now\<close> followed by \<open>validate\<close> of the
  resulting token at time \<open>later\<close>; \<open>None\<close> when login issues no token.
\<close>

definition login_then_validate ::
  "credential_store \<Rightarrow> signing_key \<Rightarrow> nat \<Rightarrow> timestamp \<Rightarrow> timestamp \<Rightarrow> string \<Rightarrow> string
    \<Rightarrow> validation option" where
  "login_then_validate store key ttl now later username password =
     (case login store key ttl now username password of
        TokenIssued t \<Rightarrow> Some (validate key later (access_token t))
      | Unauthorized \<Rightarrow> None
      | ServerFailure \<Rightarrow> None)"

text \<open>
  Modelled from the spec: the store of the scenario of section 8, after user
  \<open>alice\<close> registered with password \<open>wonderland123\<close>.
\<close>

definition alice_store :: credential_store where
  "alice_store =
     Available [\<lparr>ur_username = ''alice'', ur_email = ''alice@example.org'',
                 ur_password_hash = hash 7 ''wonderland123''\<rparr>]"

section \<open>Properties of the schemas module\<close>

lemma user_py_classes:
  "map_option classes (exec_module user_py) = Some [User, Token, TokenData]"
  by (simp add: exec_module_def user_py_def builtins_def str_or_None_def
      User_def Token_def TokenData_def str_field_def BaseModel_def)

lemma user_py_schemas: "schemas user_py = [User, Token, TokenData]"
proof -
  from user_py_classes obtain st where
    st: "exec_module user_py = Some st" "classes st = [User, Token, TokenData]"
    by (cases "exec_module user_py") auto
  then show ?thesis
    by (simp add: schemas_def User_def Token_def TokenData_def)
qed

lemma schema_User: "schema ''User'' = Some User"
  by (simp add: schema_def user_py_schemas User_def Token_def TokenData_def)

lemma schema_Token: "schema ''Token'' = Some Token"
  by (simp add: schema_def user_py_schemas User_def Token_def TokenData_def)

lemma schema_TokenData: "schema ''TokenData'' = Some TokenData"
  by (simp add: schema_def user_py_schemas User_def Token_def TokenData_def)






lemma validate_str_field_missing:
  "validate_field ver (str_field x) None = Inl Missing"
  by (simp add: str_field_def)

text \<open>
  C1: in \<open>TokenData\<close>, the annotation of \<open>username\<close> is the expression \<open>str or None\<close>.
  Since \<open>str\<close> is true, the expression evaluates to the class \<open>str\<close>, not to the
  optional-string type \<open>Optional[str]\<close>, while the default of the field is \<open>None\<close>:
  the annotation the class ends up with rejects \<open>None\<close>, which an optional-string type
  accepts.
\<close>

theorem tokendata_username_annotation_is_str:
  "truthy (PBuiltin ''str'') = Some True
   \<and> eval builtins str_or_None = Some (PBuiltin ''str'')
   \<and> eval (bind_imports ''typing'' [''Optional''] builtins) Optional_str
       = Some (PSubscript typing_Optional (PBuiltin ''str''))
   \<and> map_option cls_fields (schema ''TokenData'')
       = Some [\<lparr>f_name = ''username'', f_annotation = PBuiltin ''str'', f_default = Some PNone\<rparr>]
   \<and> \<not> conforms (PBuiltin ''str'') PNone
   \<and> conforms (PSubscript typing_Optional (PBuiltin ''str'')) PNone"
  by (simp add: schema_TokenData TokenData_def builtins_def str_or_None_def Optional_str_def
      typing_Optional_def)

text \<open>
  C7: the schemas module declares exactly three schemas, named \<open>User\<close>, \<open>Token\<close> and
  \<open>TokenData\<close>; \<open>User\<close> has the string fields \<open>username\<close> and \<open>email\<close>, and \<open>Token\<close>
  the string fields \<open>access_token\<close> and \<open>token_type\<close>.
\<close>

theorem schemas_module_declares_three_schemas:
  "map cls_name (schemas user_py) = [''User'', ''Token'', ''TokenData'']
   \<and> map_option (map (\<lambda>f. (f_name f, f_annotation f)) \<circ> cls_fields) (schema ''User'')
       = Some [(''username'', PBuiltin ''str''), (''email'', PBuiltin ''str'')]
   \<and> map_option (map (\<lambda>f. (f_name f, f_annotation f)) \<circ> cls_fields) (schema ''Token'')
       = Some [(''access_token'', PBuiltin ''str''), (''token_type'', PBuiltin ''str'')]"
  by (simp add: user_py_schemas schema_User schema_Token User_def Token_def TokenData_def
      str_field_def)

text \<open>
  C8: constructing \<open>TokenData\<close> with no arguments succeeds and gives an instance whose
  \<open>username\<close> is \<open>None\<close>, although the annotation of the field is the class \<open>str\<close>,
  which \<open>None\<close> does not conform to: the default is taken unchecked.
\<close>

theorem tokendata_default_not_validated:
  "schema ''TokenData'' = Some TokenData
   \<and> construct ver TokenData Map.empty = Inr [(''username'', PNone)]
   \<and> map f_annotation (cls_fields TokenData) = [PBuiltin ''str'']
   \<and> \<not> conforms (PBuiltin ''str'') PNone"
  by (simp add: schema_TokenData) (simp add: TokenData_def construct_def validate_fields_def)

text \<open>
  C10: constructing a \<open>Token\<close> needs both \<open>access_token\<close> and \<open>token_type\<close>: when either
  is omitted, construction fails with a validation error that reports the omitted
  field as missing. Neither field has a default; in particular \<open>token_type\<close> does not
  default to \<open>bearer\<close>.
\<close>

theorem token_requires_both_fields:
  assumes "kwargs ''access_token'' = None \<or> kwargs ''token_type'' = None"
  shows "schema ''Token'' = Some Token
   \<and> map f_default (cls_fields Token) = [None, None]
   \<and> (\<exists>errs. construct ver Token kwargs = Inl (ValidationError errs)
        \<and> (kwargs ''access_token'' = None \<longrightarrow> (''access_token'', Missing) \<in> set errs)
        \<and> (kwargs ''token_type'' = None \<longrightarrow> (''token_type'', Missing) \<in> set errs))"
proof -
  let ?a = "validate_field ver (str_field ''access_token'') (kwargs ''access_token'')"
  let ?t = "validate_field ver (str_field ''token_type'') (kwargs ''token_type'')"
  have rs: "validate_fields ver (cls_fields Token) kwargs
              = [(''access_token'', ?a), (''token_type'', ?t)]"
    by (simp add: validate_fields_def Token_def str_field_def)
  have d: "map f_default (cls_fields Token) = [None, None]"
    by (simp add: Token_def str_field_def)
  define errs where "errs = errors_of [(''access_token'', ?a), (''token_type'', ?t)]"
  have ma: "(''access_token'', Missing) \<in> set errs" if "kwargs ''access_token'' = None"
    using that by (simp add: errs_def str_field_def)
  have mt: "(''token_type'', Missing) \<in> set errs" if "kwargs ''token_type'' = None"
    using that by (cases ?a) (simp_all add: errs_def str_field_def)
  from assms ma mt have "errs \<noteq> []" by auto
  then have c: "construct ver Token kwargs = Inl (ValidationError errs)"
    by (simp add: construct_def rs errs_def)
  have "\<exists>errs. construct ver Token kwargs = Inl (ValidationError errs)
        \<and> (kwargs ''access_token'' = None \<longrightarrow> (''access_token'', Missing) \<in> set errs)
        \<and> (kwargs ''token_type'' = None \<longrightarrow> (''token_type'', Missing) \<in> set errs)"
    by (rule exI [of _ errs]) (simp add: c ma mt)
  with d schema_Token show ?thesis by simp
qed

theorem token_requires_both_fields_witness:
  "([''access_token'' \<mapsto> PStr ''abc''] ''access_token'' = None
      \<or> [''access_token'' \<mapsto> PStr ''abc''] ''token_type'' = None)
   \<and> construct V2 Token [''access_token'' \<mapsto> PStr ''abc'']
       = Inl (ValidationError [(''token_type'', Missing)])"
proof -
  have h: "[''access_token'' \<mapsto> PStr ''abc''] ''access_token'' = None
      \<or> [''access_token'' \<mapsto> PStr ''abc''] ''token_type'' = None"
    by simp
  from token_requires_both_fields [OF h, of V2] have "schema ''Token'' = Some Token" by simp
  then show ?thesis
    by (simp add: construct_def validate_fields_def Token_def str_field_def)
qed









section \<open>Properties of the application module\<close>

lemma main_py_trace:
  "startup_events main_py =
     Some [EvImport ''fastapi'' [''FastAPI''], EvImport ''auth'' [''user''],
           EvImport ''database'' [''engine'', ''Base''],
           create_all_call, FastAPI_call, include_router_call]"
  by (simp add: startup_events_def exec_module_def main_py_def builtins_def
      create_all_call_def FastAPI_call_def include_router_call_def)

lemma user_py_trace:
  "startup_events user_py =
     Some [EvImport ''pydantic'' [''BaseModel''], EvImport ''typing'' [''Optional''],
           EvClass ''User'', EvClass ''Token'', EvClass ''TokenData'']"
  by (simp add: startup_events_def exec_module_def user_py_def builtins_def str_or_None_def)

text \<open>
  C4, as stated, fails: running \<open>main.py\<close> calls \<open>Base.metadata.create_all(bind=engine)\<close>,
  which is database work and is not the router registration.
\<close>

theorem main_startup_counterexample:
  "map_option (filter is_database_work) (startup_events main_py) = Some [create_all_call]
   \<and> is_call create_all_call
   \<and> \<not> is_router_registration create_all_call"
  by (simp add: main_py_trace)
     (simp add: create_all_call_def FastAPI_call_def include_router_call_def)

text \<open>
  C4, amended: running \<open>main.py\<close> does its three imports, then bootstraps the database
  tables with \<open>Base.metadata.create_all(bind=engine)\<close>, then creates the \<open>FastAPI\<close>
  instance, then makes a single router-registration call on it, and nothing else; the
  table bootstrap is its only database work. Running the schemas module makes no call at
  all: it imports and defines classes.
\<close>

theorem main_startup_events:
  "startup_events main_py =
     Some [EvImport ''fastapi'' [''FastAPI''], EvImport ''auth'' [''user''],
           EvImport ''database'' [''engine'', ''Base''],
           create_all_call, FastAPI_call, include_router_call]
   \<and> map_option (filter is_database_work) (startup_events main_py) = Some [create_all_call]
   \<and> map_option (filter is_router_registration) (startup_events main_py)
       = Some [include_router_call]
   \<and> map_option (filter is_call) (startup_events user_py) = Some []"
  by (simp add: main_py_trace user_py_trace)
     (simp add: create_all_call_def FastAPI_call_def include_router_call_def)

section \<open>Properties of the credential service\<close>

text \<open>
  C5, as stated, fails: \<open>alice\<close> is registered with \<open>wonderland123\<close> and logs in at time 0
  with a time-to-live of 10; validating the resulting token at time 11 gives \<open>Expired\<close>,
  not claims.
\<close>

theorem login_validate_expired_counterexample:
  "find_by_username alice_store ''alice''
     = Inr \<lparr>ur_username = ''alice'', ur_email = ''alice@example.org'',
            ur_password_hash = hash 7 ''wonderland123''\<rparr>
   \<and> login_then_validate alice_store ''k'' 10 0 11 ''alice'' ''wonderland123'' = Some Expired"
  by (simp add: login_then_validate_def login_def authenticate_def issue_def hash_def alice_store_def)

text \<open>
  C5, amended: for every registered pair of username and password, \<open>login\<close> followed by
  \<open>validate\<close> of the resulting token, at a time not after the token's expiry (the time of
  login plus the time-to-live), returns claims whose username is the one logged in with.
\<close>

theorem login_validate_roundtrip:
  assumes "find_by_username store username = Inr r"
    and "ur_password_hash r = hash salt password"
    and "later \<le> now + ttl"
  shows "login_then_validate store key ttl now later username password
           = Some (Claims \<lparr>tc_username = username, tc_expires_at = now + ttl\<rparr>)"
  using assms
  by (simp add: login_then_validate_def login_def authenticate_def issue_def hash_def)

theorem login_validate_roundtrip_witness:
  "find_by_username alice_store ''alice''
     = Inr \<lparr>ur_username = ''alice'', ur_email = ''alice@example.org'',
            ur_password_hash = hash 7 ''wonderland123''\<rparr>
   \<and> (5::nat) \<le> 0 + 10
   \<and> login_then_validate alice_store ''k'' 10 0 5 ''alice'' ''wonderland123''
       = Some (Claims \<lparr>tc_username = ''alice'', tc_expires_at = 10\<rparr>)"
proof -
  have f: "find_by_username alice_store ''alice''
     = Inr \<lparr>ur_username = ''alice'', ur_email = ''alice@example.org'',
            ur_password_hash = hash 7 ''wonderland123''\<rparr>"
    by (simp add: alice_store_def)
  have t: "(5::nat) \<le> 0 + 10" by simp
  from login_validate_roundtrip [OF f _ t, of 7 "''wonderland123''" "''k''"] f show ?thesis by simp
qed

text \<open>
  An unknown username and a wrong password for a known one get the same response,
  \<open>Unauthorized\<close>. (Whether the two attempts also take the same time is not expressible
  here.)
\<close>

lemma login_rejections_coincide:
  assumes "find_by_username store absent = Inl NotFound"
    and "find_by_username store present = Inr r"
    and "\<not> verify wrong (ur_password_hash r)"
  shows "login store key ttl now absent password = Unauthorized
   \<and> login store key ttl now present wrong = Unauthorized"
  using assms by (simp add: login_def authenticate_def)

end
